theory Spec2Isabelle
  imports Complex_Main "HOL-Library.AList" "HOL-Library.Word" "HOL-Library.Log_Nat"
begin

section \<open>JavaScript values\<close>

text \<open>
  A string is a sequence of 16-bit code units; \<open>lit\<close> writes a string literal of the
  source (its characters are below U+0100, one code unit each).
\<close>

type_synonym jsstring = "16 word list"

definition lit :: "string \<Rightarrow> jsstring" where
  "lit s = map of_char s"

text \<open>
  A number is an IEEE 754 double: a finite value, given by the rational it stands for,
  \<open>NaN\<close>, or an infinity. The sign of zero is not kept (\<open>Math.round(-0.2)\<close> is \<open>-0\<close>
  in the code and 0 here; \<open>===\<close>, \<open>ToBoolean\<close> and \<open>JSON.stringify\<close> treat both alike).
\<close>

datatype number = Finite rat | NaN | PosInfinity | NegInfinity

text \<open>An object is the list of its properties in insertion order.\<close>

datatype jsval =
    JUndefined
  | JNull
  | JBool bool
  | JNum number
  | JStr jsstring
  | JObj "(string \<times> jsval) list"

type_synonym obj = "(string \<times> jsval) list"

text \<open>Reading a property \<open>o.k\<close> of an object: \<open>undefined\<close> when the object has no such property.\<close>

definition obj_get :: "obj \<Rightarrow> string \<Rightarrow> jsval" where
  "obj_get ob k = (case map_of ob k of Some x \<Rightarrow> x | None \<Rightarrow> JUndefined)"


text \<open>\<open>ToBoolean\<close>, as used by \<open>if (x)\<close>, \<open>!x\<close> and \<open>x || y\<close>.\<close>

fun truthy :: "jsval \<Rightarrow> bool" where
  "truthy JUndefined = False"
| "truthy JNull = False"
| "truthy (JBool b) = b"
| "truthy (JNum n) = (n \<noteq> Finite 0 \<and> n \<noteq> NaN)"
| "truthy (JStr s) = (s \<noteq> [])"
| "truthy (JObj ob) = True"

definition js_or :: "jsval \<Rightarrow> jsval \<Rightarrow> jsval" where
  "js_or a b = (if truthy a then a else b)"

text \<open>
  \<open>{ ...o, k: x }\<close>: the properties of \<open>o\<close> are copied into a new object, then \<open>k\<close> is
  set: overwritten in place when \<open>o\<close> has it, added at the end otherwise.
\<close>

definition spread_with :: "obj \<Rightarrow> string \<Rightarrow> jsval \<Rightarrow> obj" where
  "spread_with ob k x = AList.update k x ob"

text \<open>The thrown values: a plain \<open>Error\<close> and a \<open>ReferenceError\<close>, each with its message.\<close>

datatype js_error = Error jsstring | ReferenceError jsstring

fun message :: "js_error \<Rightarrow> jsstring" where
  "message (Error m) = m"
| "message (ReferenceError m) = m"

section \<open>Built-ins taken as parameters\<close>

text \<open>
  Two built-ins of the language are not written out here: the lower-casing of a string
  that has a code unit above U+00FF (the Unicode case tables and their context rules,
  which may change the length of a string), and the conversion of a string to a number
  (the grammar of numeric literals). Both are parameters of the model, and every
  theorem holds whatever they are.
\<close>

record engine =
  unicode_lower :: "jsstring \<Rightarrow> jsstring"
  string_to_number :: "jsstring \<Rightarrow> number"

section \<open>Strings\<close>

text \<open>
  \<open>String.prototype.toLowerCase\<close>. In a string whose code units are all below U+0100
  the letters A-Z and the accented capitals U+00C0 to U+00DE (U+00D7, the
  multiplication sign, apart) move up by 32 and every other character stays; any other
  string is lower-cased by the engine.
\<close>

definition lower_unit :: "16 word \<Rightarrow> 16 word" where
  "lower_unit u =
     (if (0x41 \<le> u \<and> u \<le> 0x5A) \<or> (0xC0 \<le> u \<and> u \<le> 0xDE \<and> u \<noteq> 0xD7)
      then u + 0x20 else u)"

definition toLowerCase :: "engine \<Rightarrow> jsstring \<Rightarrow> jsstring" where
  "toLowerCase eng s =
     (if list_all (\<lambda>u. u < 0x100) s then map lower_unit s else unicode_lower eng s)"

text \<open>
  \<open>String.prototype.trim\<close> removes white space and line terminators at both ends: tab,
  line feed, vertical tab, form feed, carriage return, space, no-break space, U+1680,
  U+2000 to U+200A, U+2028, U+2029, U+202F, U+205F, U+3000 and U+FEFF.
\<close>

definition is_space :: "16 word \<Rightarrow> bool" where
  "is_space u =
     (u \<in> {0x9, 0xA, 0xB, 0xC, 0xD, 0x20, 0xA0, 0x1680, 0x2028, 0x2029, 0x202F, 0x205F,
            0x3000, 0xFEFF} \<or> (0x2000 \<le> u \<and> u \<le> 0x200A))"

definition trim :: "jsstring \<Rightarrow> jsstring" where
  "trim s = rev (dropWhile is_space (rev (dropWhile is_space s)))"

text \<open>\<open>String.prototype.includes\<close>: the argument occurs as a contiguous substring.\<close>

fun starts_with :: "jsstring \<Rightarrow> jsstring \<Rightarrow> bool" where
  "starts_with s [] = True"
| "starts_with [] (c # cs) = False"
| "starts_with (d # ds) (c # cs) = (d = c \<and> starts_with ds cs)"

fun str_includes :: "jsstring \<Rightarrow> jsstring \<Rightarrow> bool" where
  "str_includes [] sub = (sub = [])"
| "str_includes (c # cs) sub = (starts_with (c # cs) sub \<or> str_includes cs sub)"

section \<open>Numbers\<close>

text \<open>
  The result of an arithmetic operation is its exact value rounded to the nearest
  double, a tie going to the even significand (53 bits, exponents from -1022 to 1023,
  subnormals below, an infinity when the rounded value reaches \<open>2^1024\<close>). \<open>binade x\<close>
  is the exponent \<open>e\<close> with \<open>2^e \<le> |x| < 2^(e+1)\<close>, for \<open>x\<close> other than 0.
\<close>

definition binade :: "rat \<Rightarrow> int" where
  "binade x =
     (case quotient_of \<bar>x\<bar> of
        (p, q) \<Rightarrow> let e = bitlen p - bitlen q in if 2 powi e \<le> \<bar>x\<bar> then e else e - 1)"

definition round_half_even :: "rat \<Rightarrow> int" where
  "round_half_even n =
     (let f = \<lfloor>n\<rfloor>; r = n - of_int f
      in if r < 1 / 2 then f else if 1 / 2 < r then f + 1
         else if even f then f else f + 1)"

definition to_double :: "rat \<Rightarrow> number" where
  "to_double x =
     (if x = 0 then Finite 0
      else
        let e = max (binade x) (- 1022);
            q = 2 powi (e - 52);
            y = of_int (round_half_even (x / q)) * q
        in if 1024 \<le> binade y
           then (if 0 < x then PosInfinity else NegInfinity)
           else Finite y)"

text \<open>
  \<open>Math.round\<close>: the integer nearest to the exact value of its argument, a tie going
  up; \<open>NaN\<close> and the infinities are returned as they are.
\<close>

definition math_round :: "rat \<Rightarrow> int" where
  "math_round r = \<lfloor>r + 1 / 2\<rfloor>"

fun round_number :: "number \<Rightarrow> number" where
  "round_number (Finite r) = Finite (of_int (math_round r))"
| "round_number n = n"

section \<open>The cache (weatherService.js, lines 5-9)\<close>

text \<open>
  The service keeps one \<open>NodeCache\<close> object of the node-cache package, built with the
  options \<open>stdTTL\<close> (seconds, from \<open>CACHE_TTL\<close>, default 600) and \<open>maxKeys\<close> (from
  \<open>MAX_CACHE_ENTRIES\<close>, default 100). The package is a dependency of the repository;
  its operations are modelled here as the package documents and implements them
  (version 5, \<open>lib/node_cache.js\<close>):
  \<^item> every stored value \<open>v\<close> is wrapped with its expiry instant \<open>t\<close> in milliseconds:
    \<open>Date.now() + ttl * 1000\<close>, or 0 (never expires) when the TTL is 0; instants and
    the TTL are integers, as \<open>Date.now()\<close> and \<open>parseInt\<close> give them;
  \<^item> \<open>get\<close> returns \<open>undefined\<close> for a missing key; an entry with \<open>t \<noteq> 0\<close> and
    \<open>t < Date.now()\<close> is deleted by the read and reported missing;
  \<^item> \<open>set\<close> throws \<open>ECACHEFULL\<close> ("Cache max keys amount exceeded") when
    \<open>maxKeys > -1\<close> and the number of stored keys has reached \<open>maxKeys\<close>; the check
    comes first, before the key is looked at, and nothing is stored or removed;
  \<^item> a periodic timer (\<open>checkperiod\<close>) deletes the entries that have expired.
  The only value the service ever stores is the object built by \<open>formatWeatherData\<close>,
  so the cache holds objects.
\<close>

record cache_entry =
  entry_t :: int
  entry_v :: obj

type_synonym cache_data = "(jsstring \<times> cache_entry) list"

record options =
  stdTTL :: int
  maxKeys :: int

definition default_options :: options where
  "default_options = \<lparr>stdTTL = 600, maxKeys = 100\<rparr>"

definition expired :: "int \<Rightarrow> cache_entry \<Rightarrow> bool" where
  "expired now e = (entry_t e \<noteq> 0 \<and> entry_t e < now)"

definition wrap :: "options \<Rightarrow> int \<Rightarrow> obj \<Rightarrow> cache_entry" where
  "wrap opts now x =
     \<lparr>entry_t = (if stdTTL opts = 0 then 0 else now + stdTTL opts * 1000), entry_v = x\<rparr>"

definition cache_get :: "int \<Rightarrow> cache_data \<Rightarrow> jsstring \<Rightarrow> obj option \<times> cache_data" where
  "cache_get now d k =
     (case map_of d k of
        None \<Rightarrow> (None, d)
      | Some e \<Rightarrow> if expired now e then (None, AList.delete k d) else (Some (entry_v e), d))"

definition cache_set ::
  "options \<Rightarrow> int \<Rightarrow> cache_data \<Rightarrow> jsstring \<Rightarrow> obj \<Rightarrow> js_error + cache_data" where
  "cache_set opts now d k x =
     (if maxKeys opts > -1 \<and> int (length d) \<ge> maxKeys opts
      then Inl (Error (lit ''Cache max keys amount exceeded''))
      else Inr (AList.update k (wrap opts now x) d))"

definition checkData :: "int \<Rightarrow> cache_data \<Rightarrow> cache_data" where
  "checkData now d = filter (\<lambda>(k, e). \<not> expired now e) d"

section \<open>The upstream response\<close>

text \<open>
  The body the provider sends, with the fields the service reads. \<open>location\<close>,
  \<open>current\<close> and \<open>condition\<close> are read through optional chaining, so each may be
  absent. The two temperatures go through arithmetic; each is a JSON scalar (a number,
  a string, a boolean or \<open>null\<close>) or absent. An object or an array in their place is
  outside the model: its conversion to a number runs methods of its own. Every other
  field is copied as it is.
\<close>

datatype scalar = Absent | SNull | SBool bool | SNum number | SStr jsstring

record weather_condition =
  cond_text :: jsval
  cond_icon :: jsval

record weather_current =
  temp_c :: scalar
  feelslike_c :: scalar
  condition :: "weather_condition option"
  pressure_mb :: jsval
  humidity :: jsval
  wind_kph :: jsval
  wind_degree :: jsval
  wind_dir :: jsval
  vis_km :: jsval
  air_quality :: jsval
  is_day :: jsval

record weather_location =
  loc_name :: jsval
  loc_country :: jsval
  loc_lat :: jsval
  loc_lon :: jsval
  loc_localtime :: jsval

record payload =
  location :: "weather_location option"
  current :: "weather_current option"

text \<open>
  What \<open>await axios.get(...)\<close> gives: a response with its status and body (\<open>None\<close> for
  a body that is falsy), or a thrown error with its own message and, when the
  response body carries one, the provider's message
  (\<open>error.response?.data?.error?.message\<close>).
\<close>

datatype axios_result =
    Resolved nat "payload option"
  | Rejected jsstring "jsstring option"

section \<open>formatWeatherData (weatherService.js, lines 57-92)\<close>

text \<open>
  \<open>ToNumber\<close> of a temperature, and the two expressions \<open>temp_c - 2\<close> and
  \<open>temp_c + 2\<close>. The subtraction converts its operand to a number. The addition
  concatenates when its operand is a string (\<open>"15.4" + 2\<close> is \<open>"15.42"\<close>), and the
  string is converted by \<open>Math.round\<close> afterwards. Both round their exact result to a
  double.
\<close>

fun to_number :: "engine \<Rightarrow> scalar \<Rightarrow> number" where
  "to_number eng Absent = NaN"
| "to_number eng SNull = Finite 0"
| "to_number eng (SBool b) = Finite (if b then 1 else 0)"
| "to_number eng (SNum n) = n"
| "to_number eng (SStr s) = string_to_number eng s"

fun add_number :: "number \<Rightarrow> rat \<Rightarrow> number" where
  "add_number (Finite x) y = to_double (x + y)"
| "add_number n y = n"

definition minus_2 :: "engine \<Rightarrow> scalar \<Rightarrow> number" where
  "minus_2 eng x = add_number (to_number eng x) (- 2)"

fun plus_2 :: "engine \<Rightarrow> scalar \<Rightarrow> number" where
  "plus_2 eng (SStr s) = string_to_number eng (s @ lit ''2'')"
| "plus_2 eng x = add_number (to_number eng x) 2"

definition field :: "'a option \<Rightarrow> ('a \<Rightarrow> jsval) \<Rightarrow> jsval" where
  "field x f = (case x of None \<Rightarrow> JUndefined | Some r \<Rightarrow> f r)"

definition temperature :: "weather_current option \<Rightarrow> (weather_current \<Rightarrow> scalar) \<Rightarrow> scalar" where
  "temperature x f = (case x of None \<Rightarrow> Absent | Some r \<Rightarrow> f r)"

definition formatWeatherData :: "engine \<Rightarrow> jsstring \<Rightarrow> payload \<Rightarrow> obj" where
  "formatWeatherData eng stamp data =
     (let cur = current data;
          loc = location data;
          cond = Option.bind cur condition
      in
      [(''city'', field loc loc_name),
       (''country'', field loc loc_country),
       (''coordinates'', JObj
          [(''lat'', field loc loc_lat),
           (''lon'', field loc loc_lon)]),
       (''weather'', JObj
          [(''main'', field cond cond_text),
           (''description'', field cond cond_text),
           (''icon'', field cond cond_icon)]),
       (''main'', JObj
          [(''temp'', JNum (round_number (to_number eng (temperature cur temp_c)))),
           (''feels_like'', JNum (round_number (to_number eng (temperature cur feelslike_c)))),
           (''temp_min'', JNum (round_number (minus_2 eng (temperature cur temp_c)))),
           (''temp_max'', JNum (round_number (plus_2 eng (temperature cur temp_c)))),
           (''pressure'', field cur pressure_mb),
           (''humidity'', field cur humidity)]),
       (''wind'', JObj
          [(''speed'', field cur wind_kph),
           (''deg'', field cur wind_degree),
           (''dir'', field cur wind_dir)]),
       (''visibility'', field cur vis_km),
       (''last_updated'', field loc loc_localtime),
       (''aqi'', field cur air_quality),
       (''is_day'', JStr (lit (if field cur is_day = JNum (Finite 1) then ''day'' else ''night''))),
       (''timestamp'', JStr stamp)])"

section \<open>getWeatherByCity (weatherService.js, lines 16-50)\<close>

text \<open>
  The state is the cache together with the log of the requests sent upstream (the
  \<open>q\<close> parameter of each). A lookup happens at one instant: \<open>date_now\<close> is \<open>Date.now()\<close>
  and \<open>iso_string\<close> is \<open>new Date().toISOString()\<close> of that instant.
\<close>

record world =
  cache :: cache_data
  requests :: "jsstring list"

record clock =
  date_now :: int
  iso_string :: jsstring

definition cacheKey :: "engine \<Rightarrow> jsstring \<Rightarrow> jsstring" where
  "cacheKey eng city = lit ''weather_'' @ toLowerCase eng city"

text \<open>
  The \<open>catch\<close> block of the service: whatever was thrown inside \<open>try\<close> is thrown again
  as a plain \<open>Error\<close>, with the provider's message when there is a truthy one and the
  caught error's own message otherwise.
\<close>

definition rethrow :: "jsstring \<Rightarrow> jsstring option \<Rightarrow> js_error" where
  "rethrow msg provider =
     Error (lit ''Failed to fetch weather data: '' @
       (case provider of
          Some m \<Rightarrow> if m \<noteq> [] then m else msg
        | None \<Rightarrow> msg))"

definition getWeatherByCity ::
  "engine \<Rightarrow> options \<Rightarrow> (jsstring \<Rightarrow> axios_result) \<Rightarrow> clock \<Rightarrow> jsstring \<Rightarrow> world
     \<Rightarrow> (js_error + obj) \<times> world" where
  "getWeatherByCity eng opts upstream clk city w =
     (case cache_get (date_now clk) (cache w) (cacheKey eng city) of
        (Some cachedData, d1) \<Rightarrow>
          (Inr (spread_with cachedData ''fromCache'' (JBool True)), w\<lparr>cache := d1\<rparr>)
      | (None, d1) \<Rightarrow>
          (let w1 = w\<lparr>cache := d1, requests := requests w @ [city]\<rparr> in
           case upstream city of
             Rejected msg provider \<Rightarrow> (Inl (rethrow msg provider), w1)
           | Resolved status body \<Rightarrow>
               (case (if status = 200 then body else None) of
                  Some data \<Rightarrow>
                    (let weatherData = formatWeatherData eng (iso_string clk) data in
                     case cache_set opts (date_now clk) d1 (cacheKey eng city) weatherData of
                       Inl e \<Rightarrow> (Inl (rethrow (message e) None), w1)
                     | Inr d2 \<Rightarrow>
                         (Inr (spread_with weatherData ''fromCache'' (JBool False)),
                          w1\<lparr>cache := d2\<rparr>))
                | None \<Rightarrow>
                    (Inl (rethrow (lit ''Invalid response from weather API'') None), w1))))"

section \<open>The controller (weatherController.js, lines 26-81)\<close>

text \<open>
  \<open>req.query.city\<close> is absent, a string, or something else (an array or an object,
  for a repeated or bracketed parameter). The handler either sends a response, with
  its status and JSON body, or its promise rejects with a thrown error.
\<close>

datatype query_param = QAbsent | QString jsstring | QOther

datatype http_outcome = Responded nat obj | Rejects js_error

text \<open>
  The \<open>catch\<close> block of the handler (lines 59-80). It reads the identifier \<open>city\<close>
  first, in the log line; \<open>scope_city\<close> is what that identifier is bound to where the
  block runs, \<open>None\<close> when no binding is in scope, and reading an unbound identifier
  throws a \<open>ReferenceError\<close>. A property whose value is \<open>undefined\<close> is left out of
  the JSON body.
\<close>

definition catch_block :: "bool \<Rightarrow> jsstring option \<Rightarrow> js_error \<Rightarrow> http_outcome" where
  "catch_block development scope_city error =
     (case scope_city of
        None \<Rightarrow> Rejects (ReferenceError (lit ''city is not defined''))
      | Some city \<Rightarrow>
          if str_includes (message error) (lit ''not found'')
          then Responded 404
            [(''status'', JStr (lit ''error'')),
             (''message'', JStr (lit ''City not found. Please check the city name and try again.''))]
          else Responded 500
            ([(''status'', JStr (lit ''error'')),
              (''message'', JStr (lit ''An error occurred while fetching weather data''))] @
             (if development then [(''details'', JStr (message error))] else [])))"

text \<open>
  The handler. \<open>const { city } = req.query\<close> is declared inside the \<open>try\<close> block, so
  its scope is that block: in the \<open>catch\<close> block the identifier \<open>city\<close> has no
  binding (the module declares none either).
\<close>

definition invalid_city :: "query_param \<Rightarrow> bool" where
  "invalid_city q =
     (case q of
        QAbsent \<Rightarrow> True
      | QOther \<Rightarrow> True
      | QString city \<Rightarrow> city = [] \<or> trim city = [])"

definition bad_request :: obj where
  "bad_request =
     [(''status'', JStr (lit ''error'')),
      (''message'', JStr (lit ''Please provide a valid city name'')),
      (''example'', JStr (lit ''/api/weather?city=London''))]"

definition controller ::
  "engine \<Rightarrow> bool \<Rightarrow> options \<Rightarrow> (jsstring \<Rightarrow> axios_result) \<Rightarrow> clock \<Rightarrow> query_param \<Rightarrow> world
     \<Rightarrow> http_outcome \<times> world" where
  "controller eng development opts upstream clk q w =
     (case q of
        QString city \<Rightarrow>
          if invalid_city q
          then (Responded 400 bad_request, w)
          else
            (case getWeatherByCity eng opts upstream clk city w of
               (Inr weatherData, w') \<Rightarrow>
                 (Responded 200
                    [(''status'', JStr (lit ''success'')),
                     (''data'', JObj weatherData),
                     (''meta'', JObj
                        [(''cached'', js_or (obj_get weatherData ''fromCache'') (JBool False)),
                         (''timestamp'', JStr (iso_string clk))])], w')
             | (Inl error, w') \<Rightarrow> (catch_block development None error, w'))
      | _ \<Rightarrow> (Responded 400 bad_request, w))"

section \<open>Reachable states\<close>

text \<open>
  The process starts with an empty cache. From then on the state changes by lookups
  (any city, at any instant, whatever the provider answers) and by the cache's
  periodic deletion of expired entries.
\<close>

definition initial_world :: world where
  "initial_world = \<lparr>cache = [], requests = []\<rparr>"

inductive reachable :: "engine \<Rightarrow> options \<Rightarrow> world \<Rightarrow> bool"
  for eng :: engine and opts :: options where
  start: "reachable eng opts initial_world"
| lookup: "reachable eng opts w \<Longrightarrow>
     reachable eng opts (snd (getWeatherByCity eng opts upstream clk city w))"
| sweep: "reachable eng opts w \<Longrightarrow>
     reachable eng opts (w\<lparr>cache := checkData n (cache w)\<rparr>)"

text \<open>
  The entry a read of key \<open>k\<close> at instant \<open>n\<close> returns: the stored one unless it has
  expired.
\<close>

definition live_entry :: "int \<Rightarrow> cache_data \<Rightarrow> jsstring \<Rightarrow> cache_entry option" where
  "live_entry n d k =
     (case map_of d k of
        None \<Rightarrow> None
      | Some e \<Rightarrow> if expired n e then None else Some e)"

text \<open>
  What holds of the cache in every reachable state: the keys are distinct, the number
  of entries respects \<open>maxKeys\<close> when a limit is set, and every entry is a wrapped
  object that has no \<open>fromCache\<close> property.
\<close>

definition cache_inv :: "options \<Rightarrow> cache_data \<Rightarrow> bool" where
  "cache_inv opts d \<longleftrightarrow>
     distinct (map fst d) \<and>
     (maxKeys opts > -1 \<longrightarrow> int (length d) \<le> maxKeys opts) \<and>
     (\<forall>e \<in> snd ` set d. ''fromCache'' \<notin> fst ` set (entry_v e) \<and>
        (\<exists>t0. e = wrap opts t0 (entry_v e)))"


section \<open>Example inputs\<close>

text \<open>
  An engine for the examples. Its two functions are never consulted there: the names of
  the examples have no code unit above U+00FF and their temperatures are numbers.
\<close>

definition plain_engine :: engine where
  "plain_engine = \<lparr>unicode_lower = (\<lambda>s. s), string_to_number = (\<lambda>s. NaN)\<rparr>"

text \<open>
  The payload of the specification's example, its decimal numbers read as
  \<open>JSON.parse\<close> reads them (the nearest double); the instant 2024-01-01 12:00 UTC; a
  provider that answers every request with that payload, one that answers HTTP 400
  "No matching location found." (axios throws, the body's message attached), one that
  answers 200 with a body holding neither \<open>location\<close> nor \<open>current\<close>, and one
  that answers 204 with no body.
\<close>

definition london_payload :: payload where
  "london_payload =
     \<lparr>location = Some
        \<lparr>loc_name = JStr (lit ''London''), loc_country = JStr (lit ''GB''),
         loc_lat = JNum (to_double (515 / 10)), loc_lon = JNum (to_double (- 13 / 100)),
         loc_localtime = JStr (lit ''2024-01-01 12:00'')\<rparr>,
      current = Some
        \<lparr>temp_c = SNum (to_double (154 / 10)), feelslike_c = SNum (to_double 14),
         condition = Some
           \<lparr>cond_text = JStr (lit ''Cloudy''), cond_icon = JStr (lit ''//x/03d.png'')\<rparr>,
         pressure_mb = JNum (Finite 1012), humidity = JNum (Finite 81),
         wind_kph = JNum (Finite 10), wind_degree = JNum (Finite 200),
         wind_dir = JStr (lit ''SW''), vis_km = JNum (Finite 10),
         air_quality = JObj [], is_day = JNum (Finite 1)\<rparr>\<rparr>"

definition noon :: clock where
  "noon = \<lparr>date_now = 1704110400000, iso_string = lit ''2024-01-01T12:00:00.000Z''\<rparr>"

definition london_upstream :: "jsstring \<Rightarrow> axios_result" where
  "london_upstream q = Resolved 200 (Some london_payload)"

definition unknown_city_upstream :: "jsstring \<Rightarrow> axios_result" where
  "unknown_city_upstream q =
     Rejected (lit ''Request failed with status code 400'')
       (Some (lit ''No matching location found.''))"

definition bare_upstream :: "jsstring \<Rightarrow> axios_result" where
  "bare_upstream q = Resolved 200 (Some \<lparr>location = None, current = None\<rparr>)"

definition no_body_upstream :: "jsstring \<Rightarrow> axios_result" where
  "no_body_upstream q = Resolved 204 None"

text \<open>The state after a first lookup of "london" at noon, with the default options.\<close>

definition london_world :: world where
  "london_world =
     snd (getWeatherByCity plain_engine default_options london_upstream noon (lit ''london'')
       initial_world)"

text \<open>What that first lookup returns.\<close>

definition london_result :: obj where
  "london_result =
     (case fst (getWeatherByCity plain_engine default_options london_upstream noon
         (lit ''london'') initial_world) of
        Inr r \<Rightarrow> r
      | Inl e \<Rightarrow> [])"

text \<open>The same with room for one key only, and the instant one second after noon.\<close>

definition one_key :: options where
  "one_key = \<lparr>stdTTL = 600, maxKeys = 1\<rparr>"

definition full_world :: world where
  "full_world =
     snd (getWeatherByCity plain_engine one_key london_upstream noon (lit ''london'')
       initial_world)"

definition noon_01 :: clock where
  "noon_01 = \<lparr>date_now = 1704110401000, iso_string = lit ''2024-01-01T12:00:01.000Z''\<rparr>"

text \<open>The first instant at which an entry stored at noon with a TTL of 600 s has expired.\<close>

definition after_ttl :: clock where
  "after_ttl = \<lparr>date_now = 1704111000001, iso_string = lit ''2024-01-01T12:10:00.001Z''\<rparr>"

text \<open>
  A payload whose temperature is the double just below one half,
  0.49999999999999994, and payloads whose temperature is \<open>null\<close> and the string "15.4".
\<close>

definition temp_payload :: "scalar \<Rightarrow> payload" where
  "temp_payload x =
     \<lparr>location = None,
      current = Some
        \<lparr>temp_c = x, feelslike_c = x, condition = None,
         pressure_mb = JUndefined, humidity = JUndefined, wind_kph = JUndefined,
         wind_degree = JUndefined, wind_dir = JUndefined, vis_km = JUndefined,
         air_quality = JUndefined, is_day = JNum (Finite 0)\<rparr>\<rparr>"

definition below_half :: rat where
  "below_half = 9007199254740991 / 18014398509481984"

section \<open>Association lists, the cache and the paths of a lookup\<close>

lemma update_absent: "k \<notin> fst ` set al \<Longrightarrow> AList.update k x al = al @ [(k, x)]"
  by (induction al) auto

lemma set_update_subset: "set (AList.update k x al) \<subseteq> insert (k, x) (set al)"
  by (induction al) auto

lemma length_update_le: "length (AList.update k x al) \<le> Suc (length al)"
  by (induction al) auto

lemma length_delete_less:
  "map_of d k = Some e \<Longrightarrow> length (AList.delete k d) < length d"
  by (induction d) (auto split: if_splits simp: less_Suc_eq_le AList.length_delete_le)

lemma delete_absent: "map_of d k = None \<Longrightarrow> AList.delete k d = d"
  by (induction d) (auto split: if_splits)

lemma map_of_delete_same: "map_of (AList.delete k d) k = None"
  by (simp add: AList.delete_conv')

lemma format_untagged: "''fromCache'' \<notin> fst ` set (formatWeatherData eng stamp data)"
  by (simp add: formatWeatherData_def Let_def)

lemma all_space_trim:
  assumes "\<forall>c\<in>set s. is_space c"
  shows "trim s = []"
  using assms by (auto simp: trim_def dest: set_dropWhileD)

lemma wrap_entry_v: "entry_v (wrap opts n x) = x"
  by (simp add: wrap_def)

lemma cache_inv_delete: "cache_inv opts d \<Longrightarrow> cache_inv opts (AList.delete k d)"
  unfolding cache_inv_def
  apply (intro conjI)
    apply (simp add: AList.distinct_delete)
   apply (metis AList.length_delete_le of_nat_le_iff order.trans)
  apply (auto simp: AList.delete_eq)
  done

lemma cache_inv_set:
  assumes "cache_inv opts d" "cache_set opts n d k x = Inr d'" "''fromCache'' \<notin> fst ` set x"
  shows "cache_inv opts d'"
proof -
  from assms(2) have d': "d' = AList.update k (wrap opts n x) d"
    and room: "\<not> (maxKeys opts > -1 \<and> int (length d) \<ge> maxKeys opts)"
    by (auto simp: cache_set_def split: if_splits)
  have "distinct (map fst d')"
    using assms(1) by (simp add: d' cache_inv_def AList.distinct_update)
  moreover have "maxKeys opts > -1 \<longrightarrow> int (length d') \<le> maxKeys opts"
    using room length_update_le[of k "wrap opts n x" d] by (auto simp: d')
  moreover have "\<forall>e \<in> snd ` set d'. ''fromCache'' \<notin> fst ` set (entry_v e) \<and>
        (\<exists>t0. e = wrap opts t0 (entry_v e))"
  proof
    fix e assume "e \<in> snd ` set d'"
    then have "e = wrap opts n x \<or> e \<in> snd ` set d"
      using set_update_subset[of k "wrap opts n x" d] by (auto simp: d')
    then show "''fromCache'' \<notin> fst ` set (entry_v e) \<and> (\<exists>t0. e = wrap opts t0 (entry_v e))"
    proof
      assume "e = wrap opts n x"
      then show ?thesis using assms(3) by (auto simp: wrap_entry_v)
    next
      assume "e \<in> snd ` set d"
      then show ?thesis using assms(1) unfolding cache_inv_def by blast
    qed
  qed
  ultimately show ?thesis by (simp add: cache_inv_def)
qed

lemma cache_inv_checkData: "cache_inv opts d \<Longrightarrow> cache_inv opts (checkData n d)"
  unfolding cache_inv_def checkData_def
  apply (intro conjI)
    apply (simp add: distinct_map_filter)
   apply (metis (no_types, lifting) length_filter_le of_nat_le_iff order.trans)
  apply auto
  done

text \<open>The read: a live entry is returned and the cache stays; otherwise the key is gone afterwards.\<close>

lemma cache_get_live:
  "live_entry n d k = Some e \<Longrightarrow> cache_get n d k = (Some (entry_v e), d)"
  by (auto simp: live_entry_def cache_get_def split: option.splits if_splits)

lemma cache_get_none:
  "live_entry n d k = None \<Longrightarrow> cache_get n d k = (None, AList.delete k d)"
  by (auto simp: live_entry_def cache_get_def delete_absent split: option.splits if_splits)

text \<open>The four ways a lookup ends.\<close>

lemma lookup_hit:
  assumes "live_entry (date_now clk) (cache w) (cacheKey eng city) = Some e"
  shows "getWeatherByCity eng opts upstream clk city w =
           (Inr (spread_with (entry_v e) ''fromCache'' (JBool True)), w)"
  using cache_get_live[OF assms] by (simp add: getWeatherByCity_def)

lemma lookup_rejected:
  assumes "live_entry (date_now clk) (cache w) (cacheKey eng city) = None"
    and "upstream city = Rejected msg provider"
  shows "getWeatherByCity eng opts upstream clk city w =
           (Inl (rethrow msg provider),
            \<lparr>cache = AList.delete (cacheKey eng city) (cache w), requests = requests w @ [city]\<rparr>)"
  using cache_get_none[OF assms(1)] assms(2) by (simp add: getWeatherByCity_def)

lemma lookup_invalid:
  assumes "live_entry (date_now clk) (cache w) (cacheKey eng city) = None"
    and "upstream city = Resolved status body"
    and "status \<noteq> 200 \<or> body = None"
  shows "getWeatherByCity eng opts upstream clk city w =
           (Inl (rethrow (lit ''Invalid response from weather API'') None),
            \<lparr>cache = AList.delete (cacheKey eng city) (cache w), requests = requests w @ [city]\<rparr>)"
  using cache_get_none[OF assms(1)] assms(2,3) by (auto simp: getWeatherByCity_def)

lemma lookup_full:
  assumes "live_entry (date_now clk) (cache w) (cacheKey eng city) = None"
    and "upstream city = Resolved 200 (Some data)"
    and "maxKeys opts > -1"
    and "int (length (AList.delete (cacheKey eng city) (cache w))) \<ge> maxKeys opts"
  shows "getWeatherByCity eng opts upstream clk city w =
           (Inl (rethrow (lit ''Cache max keys amount exceeded'') None),
            \<lparr>cache = AList.delete (cacheKey eng city) (cache w), requests = requests w @ [city]\<rparr>)"
  using cache_get_none[OF assms(1)] assms(2,3,4)
  by (simp add: getWeatherByCity_def cache_set_def Let_def)

lemma lookup_stored:
  assumes "live_entry (date_now clk) (cache w) (cacheKey eng city) = None"
    and "upstream city = Resolved 200 (Some data)"
    and "\<not> (maxKeys opts > -1 \<and> int (length (AList.delete (cacheKey eng city) (cache w))) \<ge> maxKeys opts)"
  shows "getWeatherByCity eng opts upstream clk city w =
           (Inr (formatWeatherData eng (iso_string clk) data @ [(''fromCache'', JBool False)]),
            \<lparr>cache = AList.update (cacheKey eng city)
                       (wrap opts (date_now clk) (formatWeatherData eng (iso_string clk) data))
                       (AList.delete (cacheKey eng city) (cache w)),
             requests = requests w @ [city]\<rparr>)"
  using cache_get_none[OF assms(1)] assms(2,3)
  by (simp add: getWeatherByCity_def cache_set_def Let_def spread_with_def
        update_absent[OF format_untagged])

text \<open>Every lookup ends in one of these ways.\<close>

lemma lookup_cases:
  obtains
    (hit) e where "live_entry (date_now clk) (cache w) (cacheKey eng city) = Some e"
  | (rejected) msg provider where "live_entry (date_now clk) (cache w) (cacheKey eng city) = None"
      "upstream city = Rejected msg provider"
  | (invalid) status body where "live_entry (date_now clk) (cache w) (cacheKey eng city) = None"
      "upstream city = Resolved status body" "status \<noteq> 200 \<or> body = None"
  | (full) data where "live_entry (date_now clk) (cache w) (cacheKey eng city) = None"
      "upstream city = Resolved 200 (Some data)" "maxKeys opts > -1"
      "int (length (AList.delete (cacheKey eng city) (cache w))) \<ge> maxKeys opts"
  | (stored) data where "live_entry (date_now clk) (cache w) (cacheKey eng city) = None"
      "upstream city = Resolved 200 (Some data)"
      "\<not> (maxKeys opts > -1 \<and> int (length (AList.delete (cacheKey eng city) (cache w))) \<ge> maxKeys opts)"
proof (cases "live_entry (date_now clk) (cache w) (cacheKey eng city)")
  case (Some e)
  then show ?thesis by (rule hit)
next
  case None
  show ?thesis
  proof (cases "upstream city")
    case (Rejected msg provider)
    with None show ?thesis by (rule rejected)
  next
    case (Resolved status body)
    show ?thesis
    proof (cases "status \<noteq> 200 \<or> body = None")
      case True
      with None Resolved show ?thesis by (rule invalid)
    next
      case False
      then obtain data where "upstream city = Resolved 200 (Some data)"
        using Resolved by auto
      with None show ?thesis using full stored by blast
    qed
  qed
qed

lemma lookup_preserves_inv:
  assumes "cache_inv opts (cache w)"
  shows "cache_inv opts (cache (snd (getWeatherByCity eng opts upstream clk city w)))"
proof (cases rule: lookup_cases[where clk=clk and w=w and city=city and upstream=upstream and opts=opts and eng=eng])
  case (hit e)
  then show ?thesis using assms by (simp add: lookup_hit)
next
  case (rejected msg provider)
  then show ?thesis using assms by (simp add: lookup_rejected cache_inv_delete)
next
  case (invalid status body)
  then show ?thesis using assms by (simp add: lookup_invalid cache_inv_delete)
next
  case (full data)
  then show ?thesis using assms by (simp add: lookup_full cache_inv_delete)
next
  case (stored data)
  have "cache_set opts (date_now clk) (AList.delete (cacheKey eng city) (cache w)) (cacheKey eng city)
          (formatWeatherData eng (iso_string clk) data)
        = Inr (AList.update (cacheKey eng city)
                 (wrap opts (date_now clk) (formatWeatherData eng (iso_string clk) data))
                 (AList.delete (cacheKey eng city) (cache w)))"
    using stored(3) by (simp add: cache_set_def)
  then have "cache_inv opts (AList.update (cacheKey eng city)
                 (wrap opts (date_now clk) (formatWeatherData eng (iso_string clk) data))
                 (AList.delete (cacheKey eng city) (cache w)))"
    using cache_inv_set[OF cache_inv_delete[OF assms] _ format_untagged] by blast
  then show ?thesis using stored by (simp add: lookup_stored)
qed

lemma reachable_inv: "reachable eng opts w \<Longrightarrow> cache_inv opts (cache w)"
proof (induction rule: reachable.induct)
  case start
  show ?case by (simp add: initial_world_def cache_inv_def)
next
  case (lookup w upstream clk city)
  then show ?case by (simp add: lookup_preserves_inv)
next
  case (sweep w n)
  then show ?case by (simp add: cache_inv_checkData)
qed

section \<open>Numbers, strings and objects\<close>




text \<open>
  \<open>binade\<close> is the binary exponent, and \<open>to_double\<close> returns a multiple of the
  quantum of that exponent that is at most half a quantum away from the exact value.
\<close>

lemma bitlen_powi:
  assumes "0 < (p::int)"
  shows "(2::rat) powi (bitlen p - 1) \<le> of_int p \<and> of_int p < (2::rat) powi (bitlen p)"
proof -
  have b: "2 ^ nat (bitlen p - 1) \<le> p \<and> p < 2 ^ nat (bitlen p)"
    using bitlen_bounds[OF assms] .
  have pos: "0 < bitlen p" using assms bitlen_eq_zero_iff[of p] bitlen_nonneg[of p] by linarith
  have "(2::rat) powi (bitlen p - 1) = of_int (2 ^ nat (bitlen p - 1))"
    using pos by (simp add: power_int_nonneg_exp)
  moreover have "(2::rat) powi (bitlen p) = of_int (2 ^ nat (bitlen p))"
    using pos by (simp add: power_int_nonneg_exp)
  ultimately show ?thesis
    using b by (metis of_int_le_iff of_int_less_iff)
qed

lemma binade_bounds:
  assumes "x \<noteq> 0"
  shows "2 powi (binade x) \<le> \<bar>x\<bar> \<and> \<bar>x\<bar> < 2 powi (binade x + 1)"
proof -
  obtain p q where pq: "quotient_of \<bar>x\<bar> = (p, q)" by (cases "quotient_of \<bar>x\<bar>")
  have q: "0 < q" using quotient_of_denom_pos[OF pq] .
  have x: "\<bar>x\<bar> = of_int p / of_int q" using quotient_of_div[OF pq] .
  have p: "0 < p"
  proof -
    have "0 < \<bar>x\<bar>" using assms by simp
    then have "0 < (of_int p :: rat) / of_int q" using x by simp
    then show ?thesis using q by (simp add: zero_less_divide_iff)
  qed
  let ?e = "bitlen p - bitlen q"
  have bp: "(2::rat) powi (bitlen p - 1) \<le> of_int p" "of_int p < (2::rat) powi (bitlen p)"
    using bitlen_powi[OF p] by simp_all
  have bq: "(2::rat) powi (bitlen q - 1) \<le> of_int q" "of_int q < (2::rat) powi (bitlen q)"
    using bitlen_powi[OF q] by simp_all
  have qpos: "0 < (of_int q :: rat)" using q by simp
  have up: "\<bar>x\<bar> < 2 powi (?e + 1)"
  proof -
    have "of_int p < (2::rat) powi (bitlen p)" by (rule bp(2))
    also have "\<dots> = 2 powi (?e + 1) * 2 powi (bitlen q - 1)"
      by (simp add: power_int_add[symmetric])
    also have "\<dots> \<le> 2 powi (?e + 1) * of_int q"
      using bq(1) by (simp add: mult_left_mono)
    finally show ?thesis using qpos by (simp add: x pos_divide_less_eq)
  qed
  have lo: "2 powi (?e - 1) < \<bar>x\<bar>"
  proof -
    have "2 powi (?e - 1) * of_int q < 2 powi (?e - 1) * (2::rat) powi (bitlen q)"
      using bq(2) by (simp add: mult_strict_left_mono)
    also have "\<dots> = 2 powi (bitlen p - 1)"
      by (simp add: power_int_add[symmetric])
    also have "\<dots> \<le> of_int p" by (rule bp(1))
    finally show ?thesis using qpos by (simp add: x pos_less_divide_eq)
  qed
  show ?thesis
  proof (cases "2 powi ?e \<le> \<bar>x\<bar>")
    case True
    then show ?thesis using up by (simp add: binade_def pq Let_def)
  next
    case False
    then show ?thesis using lo by (simp add: binade_def pq Let_def)
  qed
qed

lemma round_half_even_near: "\<bar>of_int (round_half_even n) - n\<bar> \<le> 1 / 2"
proof -
  define f where "f = \<lfloor>n\<rfloor>"
  define r where "r = n - of_int f"
  have r: "0 \<le> r" "r < 1" unfolding r_def f_def by linarith+
  have n: "n = of_int f + r" by (simp add: r_def)
  have "round_half_even n =
      (if r < 1 / 2 then f else if 1 / 2 < r then f + 1 else if even f then f else f + 1)"
    by (simp add: round_half_even_def Let_def f_def r_def)
  then show ?thesis using r unfolding n by (auto simp: abs_if)
qed

lemma to_double_nearest:
  assumes "to_double x = Finite y"
  shows "\<exists>m. y = of_int m * 2 powi (max (binade x) (- 1022) - 52) \<and>
             \<bar>y - x\<bar> \<le> 2 powi (max (binade x) (- 1022) - 53)"
proof (cases "x = 0")
  case True
  then show ?thesis using assms by (auto simp: to_double_def intro: exI[of _ 0])
next
  case False
  define e where "e = max (binade x) (- 1022)"
  define q :: rat where "q = 2 powi (e - 52)"
  define m where "m = round_half_even (x / q)"
  have qpos: "0 < q" by (simp add: q_def)
  have y: "y = of_int m * q"
    using assms False
    by (simp add: to_double_def Let_def e_def[symmetric] q_def[symmetric] m_def[symmetric]
        split: if_splits)
  have near: "\<bar>of_int m - x / q\<bar> \<le> 1 / 2"
    unfolding m_def by (rule round_half_even_near)
  have "y - x = (of_int m - x / q) * q" using qpos by (simp add: y algebra_simps)
  then have "\<bar>y - x\<bar> = \<bar>of_int m - x / q\<bar> * q" using qpos by (simp add: abs_mult)
  also have "\<dots> \<le> 1 / 2 * q" using near qpos by (simp add: mult_right_mono)
  also have "\<dots> = 2 powi (e - 53)"
  proof -
    have "(2::rat) powi ((e - 53) + 1) = 2 powi (e - 53) * 2 powi 1"
      by (rule power_int_add) simp
    then show ?thesis by (simp add: q_def)
  qed
  finally show ?thesis using y by (auto simp: q_def e_def)
qed

lemma unat_of_char: "unat (of_char c :: 16 word) = of_char c"
proof -
  have "(of_char c :: 16 word) = of_nat (of_char c)" by (simp add: of_nat_of_char)
  moreover have "(of_char c :: nat) < 2 ^ 16"
    by (rule less_trans[OF nat_of_char_less_256]) simp
  ultimately show ?thesis
    by (simp add: unat_of_nat take_bit_nat_eq_self_iff)
qed

lemma unit_inj: "(of_char c :: 16 word) = of_char d \<longleftrightarrow> c = d"
proof
  assume "(of_char c :: 16 word) = of_char d"
  then have "unat (of_char c :: 16 word) = unat (of_char d :: 16 word)" by simp
  then show "c = d" by (simp add: unat_of_char)
qed simp

lemma unit_below_256: "(of_char c :: 16 word) < 0x100"
  using nat_of_char_less_256[of c] by (simp add: word_less_nat_alt unat_of_char)

lemma lit_inj: "lit a = lit b \<longleftrightarrow> a = b"
  unfolding lit_def by (rule inj_map_eq_map) (simp add: inj_on_def unit_inj)

lemma lit_append: "lit a @ lit b = lit (a @ b)"
  by (simp add: lit_def)

lemma lit_empty: "lit s = [] \<longleftrightarrow> s = []"
  by (simp add: lit_def)

lemma lit_below_256: "list_all (\<lambda>u. u < 0x100) (lit s)"
  by (simp add: lit_def list_all_iff unit_below_256)

lemma toLowerCase_lit: "toLowerCase eng (lit s) = map lower_unit (lit s)"
  using lit_below_256[of s] by (simp add: toLowerCase_def)






lemma map_eq_nth:
  assumes "map f a = map f b"
  shows "length a = length b \<and> (\<forall>i<length a. f (a ! i) = f (b ! i))"
  using assms by (metis length_map nth_map)

lemma starts_with_append: "starts_with (p @ m) p"
  by (induction p) auto

lemma obj_get_spread_same: "obj_get (spread_with ob k x) k = x"
  by (simp add: obj_get_def spread_with_def AList.update_conv')

lemma spread_twice: "spread_with (spread_with ob k x) k y = spread_with ob k y"
  by (simp add: spread_with_def)

lemma spread_untagged:
  "k \<notin> fst ` set ob \<Longrightarrow> spread_with ob k x = ob @ [(k, x)]"
  by (simp add: spread_with_def update_absent)

lemma format_fields:
  assumes "current data = Some c"
  shows "obj_get (formatWeatherData eng stamp data @ ext) ''main'' =
           JObj [(''temp'', JNum (round_number (to_number eng (temp_c c)))),
                 (''feels_like'', JNum (round_number (to_number eng (feelslike_c c)))),
                 (''temp_min'', JNum (round_number (minus_2 eng (temp_c c)))),
                 (''temp_max'', JNum (round_number (plus_2 eng (temp_c c)))),
                 (''pressure'', pressure_mb c),
                 (''humidity'', humidity c)]"
    and "obj_get (formatWeatherData eng stamp data @ ext) ''is_day'' =
           JStr (lit (if is_day c = JNum (Finite 1) then ''day'' else ''night''))"
  using assms
  by (simp_all add: formatWeatherData_def obj_get_def field_def temperature_def Let_def)

section \<open>The example states\<close>

lemma lower_london: "map lower_unit (lit ''london'') = lit ''london''"
  by (simp add: lit_def lower_unit_def)

lemma lower_LONDON: "map lower_unit (lit ''LONDON'') = lit ''london''"
  by (simp add: lit_def lower_unit_def)

lemma lower_London: "map lower_unit (lit ''London'') = lit ''london''"
  by (simp add: lit_def lower_unit_def)

lemma lower_london_sp: "map lower_unit (lit ''london '') = lit ''london ''"
  by (simp add: lit_def lower_unit_def)

lemma lower_paris: "map lower_unit (lit ''paris'') = lit ''paris''"
  by (simp add: lit_def lower_unit_def)

lemma lower_atlantis: "map lower_unit (lit ''Atlantis'') = lit ''atlantis''"
  by (simp add: lit_def lower_unit_def)

lemma lower_nowhere: "map lower_unit (lit ''nowhere'') = lit ''nowhere''"
  by (simp add: lit_def lower_unit_def)

lemma key_london: "cacheKey eng (lit ''london'') = lit ''weather_london''"
  by (simp add: cacheKey_def toLowerCase_lit lower_london lit_append)

lemma key_LONDON: "cacheKey eng (lit ''LONDON'') = lit ''weather_london''"
  by (simp add: cacheKey_def toLowerCase_lit lower_LONDON lit_append)

lemma key_London: "cacheKey eng (lit ''London'') = lit ''weather_london''"
  by (simp add: cacheKey_def toLowerCase_lit lower_London lit_append)

lemma key_london_sp: "cacheKey eng (lit ''london '') = lit ''weather_london ''"
  by (simp add: cacheKey_def toLowerCase_lit lower_london_sp lit_append)

lemma key_paris: "cacheKey eng (lit ''paris'') = lit ''weather_paris''"
  by (simp add: cacheKey_def toLowerCase_lit lower_paris lit_append)

lemma key_atlantis: "cacheKey eng (lit ''Atlantis'') = lit ''weather_atlantis''"
  by (simp add: cacheKey_def toLowerCase_lit lower_atlantis lit_append)

lemma key_nowhere: "cacheKey eng (lit ''nowhere'') = lit ''weather_nowhere''"
  by (simp add: cacheKey_def toLowerCase_lit lower_nowhere lit_append)

lemma live_entry_empty: "live_entry n [] k = None"
  by (simp add: live_entry_def)

lemma first_lookup_london:
  assumes "maxKeys opts \<noteq> 0"
  shows "getWeatherByCity eng opts london_upstream clk (lit ''london'') initial_world =
      (Inr (formatWeatherData eng (iso_string clk) london_payload @ [(''fromCache'', JBool False)]),
       \<lparr>cache = [(lit ''weather_london'',
            wrap opts (date_now clk) (formatWeatherData eng (iso_string clk) london_payload))],
        requests = [lit ''london'']\<rparr>)"
  using assms
    lookup_stored[of clk initial_world eng "lit ''london''" london_upstream london_payload opts]
  by (simp add: initial_world_def live_entry_empty london_upstream_def key_london)

lemma london_world_eq:
  "london_world =
     \<lparr>cache = [(lit ''weather_london'',
         wrap default_options (date_now noon)
           (formatWeatherData plain_engine (iso_string noon) london_payload))],
      requests = [lit ''london'']\<rparr>"
  by (simp add: london_world_def first_lookup_london default_options_def)

lemma london_result_eq:
  "london_result =
     formatWeatherData plain_engine (iso_string noon) london_payload @
       [(''fromCache'', JBool False)]"
  by (simp add: london_result_def first_lookup_london default_options_def)

lemma full_world_eq:
  "full_world =
     \<lparr>cache = [(lit ''weather_london'',
         wrap one_key (date_now noon)
           (formatWeatherData plain_engine (iso_string noon) london_payload))],
      requests = [lit ''london'']\<rparr>"
  by (simp add: full_world_def first_lookup_london one_key_def)

lemma reachable_london_world: "reachable plain_engine default_options london_world"
  unfolding london_world_def by (rule reachable.lookup[OF reachable.start])

lemma reachable_full_world: "reachable plain_engine one_key full_world"
  unfolding full_world_def by (rule reachable.lookup[OF reachable.start])



lemma wrap_not_expired:
  assumes "0 \<le> stdTTL opts"
  shows "\<not> expired n (wrap opts n x)"
  using assms by (simp add: expired_def wrap_def)

lemma live_entry_map_of:
  "live_entry n d k = Some e \<Longrightarrow> map_of d k = Some e"
  by (auto simp: live_entry_def split: option.splits if_splits)

lemma trim_london_sp: "trim (lit ''london '') = lit ''london''"
  by (simp add: trim_def lit_def is_space_def)

text \<open>
  Temperatures that are not plain decimals. For the double just below one half the
  subtraction and the addition round to -1.5 and 2.5, so the three values are 0, -1
  and 3; \<open>null\<close> counts as 0; a string is concatenated with "2" by the addition.
\<close>

lemma below_half_doubles:
  "to_double below_half = Finite below_half"
  "to_double (below_half - 2) = Finite (- 3 / 2)"
  "to_double (below_half + 2) = Finite (5 / 2)"
  "math_round below_half = 0" "math_round (- (3 / 2)) = - 1" "math_round (5 / 2) = 3"
  by code_simp+

lemma format_below_half:
  "obj_get (formatWeatherData eng stamp (temp_payload (SNum (Finite below_half)))) ''main'' =
     JObj [(''temp'', JNum (Finite 0)), (''feels_like'', JNum (Finite 0)),
           (''temp_min'', JNum (Finite (- 1))), (''temp_max'', JNum (Finite 3)),
           (''pressure'', JUndefined), (''humidity'', JUndefined)]"
  using format_fields(1)[of "temp_payload (SNum (Finite below_half))" _ eng stamp "[]"]
  by (simp add: temp_payload_def minus_2_def below_half_doubles)

lemma format_null:
  "obj_get (formatWeatherData eng stamp (temp_payload SNull)) ''main'' =
     JObj [(''temp'', JNum (Finite 0)), (''feels_like'', JNum (Finite 0)),
           (''temp_min'', JNum (Finite (- 2))), (''temp_max'', JNum (Finite 2)),
           (''pressure'', JUndefined), (''humidity'', JUndefined)]"
proof -
  have "to_double (- 2) = Finite (- 2)" "to_double 2 = Finite 2"
    "math_round 0 = 0" "math_round (- 2) = - 2" "math_round 2 = 2"
    by code_simp+
  then show ?thesis
    using format_fields(1)[of "temp_payload SNull" _ eng stamp "[]"]
    by (simp add: temp_payload_def minus_2_def)
qed

lemma format_string:
  "obj_get (formatWeatherData eng stamp (temp_payload (SStr s))) ''main'' =
     JObj [(''temp'', JNum (round_number (string_to_number eng s))),
           (''feels_like'', JNum (round_number (string_to_number eng s))),
           (''temp_min'', JNum (round_number (add_number (string_to_number eng s) (- 2)))),
           (''temp_max'', JNum (round_number (string_to_number eng (s @ lit ''2'')))),
           (''pressure'', JUndefined), (''humidity'', JUndefined)]"
  using format_fields(1)[of "temp_payload (SStr s)" _ eng stamp "[]"]
  by (simp add: temp_payload_def minus_2_def)

section \<open>Claims\<close>

text \<open>
  C9. Every failure of the service's \<open>getWeatherByCity\<close> is a plain \<open>Error\<close> whose
  message starts with "Failed to fetch weather data: ", whatever made it fail: a thrown
  request, a status other than 200, an empty body, or a full cache.
\<close>

theorem service_failure_is_prefixed_error:
  assumes "fst (getWeatherByCity eng opts upstream clk city w) = Inl err"
  shows "\<exists>m. err = Error m \<and> starts_with m (lit ''Failed to fetch weather data: '')"
proof -
  have pre: "\<exists>m. rethrow msg provider = Error m \<and>
      starts_with m (lit ''Failed to fetch weather data: '')" for msg provider
    unfolding rethrow_def using starts_with_append by blast
  show ?thesis
  proof (cases rule: lookup_cases[where clk=clk and w=w and city=city
        and upstream=upstream and opts=opts and eng=eng])
    case (hit e)
    then show ?thesis using assms by (simp add: lookup_hit)
  next
    case (rejected msg provider)
    then have "err = rethrow msg provider" using assms by (simp add: lookup_rejected)
    then show ?thesis using pre by simp
  next
    case (invalid status body)
    then have "err = rethrow (lit ''Invalid response from weather API'') None"
      using assms by (simp add: lookup_invalid)
    then show ?thesis using pre by simp
  next
    case (full data)
    then have "err = rethrow (lit ''Cache max keys amount exceeded'') None"
      using assms by (simp add: lookup_full)
    then show ?thesis using pre by simp
  next
    case (stored data)
    then show ?thesis using assms by (simp add: lookup_stored)
  qed
qed

theorem service_failure_is_prefixed_error_witness:
  "fst (getWeatherByCity plain_engine default_options no_body_upstream noon (lit ''london'')
     initial_world) =
     Inl (Error (lit ''Failed to fetch weather data: Invalid response from weather API'')) \<and>
   (\<exists>m. Error (lit ''Failed to fetch weather data: Invalid response from weather API'') =
          Error m \<and>
        starts_with m (lit ''Failed to fetch weather data: ''))"
proof -
  have h: "fst (getWeatherByCity plain_engine default_options no_body_upstream noon
      (lit ''london'') initial_world) =
     Inl (Error (lit ''Failed to fetch weather data: Invalid response from weather API''))"
    using lookup_invalid[of noon initial_world plain_engine "lit ''london''" no_body_upstream
        204 None default_options]
    by (simp add: initial_world_def live_entry_empty no_body_upstream_def rethrow_def lit_append)
  from service_failure_is_prefixed_error[OF h] h show ?thesis by simp
qed

text \<open>
  C5. A city parameter that is empty or holds white space only is answered by the
  handler with status 400 and the message "Please provide a valid city name"; the
  service is not called, so the cache and the log of upstream requests stay as they
  were.
\<close>

theorem blank_city_is_bad_request:
  assumes "\<forall>c\<in>set city. is_space c"
  shows "controller eng development opts upstream clk (QString city) w =
           (Responded 400
              [(''status'', JStr (lit ''error'')),
               (''message'', JStr (lit ''Please provide a valid city name'')),
               (''example'', JStr (lit ''/api/weather?city=London''))], w)"
  using all_space_trim[OF assms]
  by (simp add: controller_def invalid_city_def bad_request_def)

theorem blank_city_is_bad_request_witness:
  "controller plain_engine False default_options london_upstream noon (QString (lit ''''))
     london_world =
     (Responded 400
       [(''status'', JStr (lit ''error'')),
        (''message'', JStr (lit ''Please provide a valid city name'')),
        (''example'', JStr (lit ''/api/weather?city=London''))], london_world) \<and>
   controller plain_engine False default_options london_upstream noon (QString (lit ''   ''))
     london_world =
     (Responded 400
       [(''status'', JStr (lit ''error'')),
        (''message'', JStr (lit ''Please provide a valid city name'')),
        (''example'', JStr (lit ''/api/weather?city=London''))], london_world)"
proof -
  have a: "\<forall>c\<in>set (lit ''''). is_space c" by (simp add: lit_def)
  have b: "\<forall>c\<in>set (lit ''   ''). is_space c" by (simp add: lit_def is_space_def)
  show ?thesis
    using blank_city_is_bad_request[OF a, of plain_engine False default_options
        london_upstream noon london_world]
      blank_city_is_bad_request[OF b, of plain_engine False default_options
        london_upstream noon london_world]
    by simp
qed






text \<open>
  C1, as the code has it. The key under which a name is looked up is the one the code
  computes, "weather_" followed by the lower-cased name, not trimmed. In a reachable
  state, when the cache holds an entry under that key that has not expired, the lookup
  returns that entry's object with the property \<open>fromCache: true\<close> added at its end,
  and leaves the state as it was: no request is added to the upstream log. And when a
  lookup has returned a result, a lookup at the same instant of a name with the same
  lower-case form returns the same object with \<open>fromCache\<close> true, again without a
  request, whatever the provider would have answered (the TTL not being negative).
\<close>

theorem live_entry_served_from_cache:
  assumes "reachable eng opts w"
  shows "(live_entry (date_now clk) (cache w) (cacheKey eng city) = Some e \<longrightarrow>
            getWeatherByCity eng opts upstream clk city w =
              (Inr (entry_v e @ [(''fromCache'', JBool True)]), w)) \<and>
         (0 \<le> stdTTL opts \<and> getWeatherByCity eng opts upstream clk city w = (Inr r, w') \<and>
          toLowerCase eng city' = toLowerCase eng city \<longrightarrow>
            (\<exists>x b. r = x @ [(''fromCache'', JBool b)] \<and> ''fromCache'' \<notin> fst ` set x \<and>
                   getWeatherByCity eng opts upstream' clk city' w' =
                     (Inr (x @ [(''fromCache'', JBool True)]), w')))"
proof (intro conjI impI)
  have inv: "cache_inv opts (cache w)" using assms by (rule reachable_inv)
  have clean: "''fromCache'' \<notin> fst ` set (entry_v e')"
    if "live_entry (date_now clk) (cache w) k = Some e'" for k e'
  proof -
    have "map_of (cache w) k = Some e'" using that by (rule live_entry_map_of)
    then have "e' \<in> snd ` set (cache w)"
      by (metis map_of_SomeD image_eqI snd_conv)
    then show ?thesis using inv unfolding cache_inv_def by blast
  qed
  {
    assume live: "live_entry (date_now clk) (cache w) (cacheKey eng city) = Some e"
    show "getWeatherByCity eng opts upstream clk city w =
        (Inr (entry_v e @ [(''fromCache'', JBool True)]), w)"
      using lookup_hit[OF live, of opts upstream] spread_untagged[OF clean[OF live]]
      by simp
  }
  assume a: "0 \<le> stdTTL opts \<and> getWeatherByCity eng opts upstream clk city w = (Inr r, w') \<and>
    toLowerCase eng city' = toLowerCase eng city"
  then have ttl: "0 \<le> stdTTL opts"
    and run: "getWeatherByCity eng opts upstream clk city w = (Inr r, w')"
    and key: "cacheKey eng city' = cacheKey eng city"
    by (simp_all add: cacheKey_def)
  show "\<exists>x b. r = x @ [(''fromCache'', JBool b)] \<and> ''fromCache'' \<notin> fst ` set x \<and>
          getWeatherByCity eng opts upstream' clk city' w' =
            (Inr (x @ [(''fromCache'', JBool True)]), w')"
  proof (cases rule: lookup_cases[where clk=clk and w=w and city=city
        and upstream=upstream and opts=opts and eng=eng])
    case (hit e')
    have un: "''fromCache'' \<notin> fst ` set (entry_v e')" using clean[OF hit] .
    have "r = entry_v e' @ [(''fromCache'', JBool True)]" and "w' = w"
      using run hit by (simp_all add: lookup_hit spread_untagged[OF un])
    moreover have "getWeatherByCity eng opts upstream' clk city' w =
        (Inr (entry_v e' @ [(''fromCache'', JBool True)]), w)"
      using lookup_hit[of clk w eng city' e' opts upstream'] hit
      by (simp add: key spread_untagged[OF un])
    ultimately show ?thesis using un by blast
  next
    case (rejected msg provider)
    then show ?thesis using run by (simp add: lookup_rejected)
  next
    case (invalid status body)
    then show ?thesis using run by (simp add: lookup_invalid)
  next
    case (full data)
    then show ?thesis using run by (simp add: lookup_full)
  next
    case (stored data)
    let ?x = "formatWeatherData eng (iso_string clk) data"
    have un: "''fromCache'' \<notin> fst ` set ?x" by (rule format_untagged)
    from stored run have r: "r = ?x @ [(''fromCache'', JBool False)]"
      and w': "cache w' = AList.update (cacheKey eng city) (wrap opts (date_now clk) ?x)
                 (AList.delete (cacheKey eng city) (cache w))"
      by (auto simp: lookup_stored)
    have "live_entry (date_now clk) (cache w') (cacheKey eng city') =
            Some (wrap opts (date_now clk) ?x)"
      using wrap_not_expired[OF ttl]
      by (simp add: live_entry_def w' key AList.update_conv')
    then have "getWeatherByCity eng opts upstream' clk city' w' =
        (Inr (?x @ [(''fromCache'', JBool True)]), w')"
      using lookup_hit[of clk w' eng city' "wrap opts (date_now clk) ?x" opts upstream']
      by (simp add: wrap_entry_v spread_untagged[OF un])
    then show ?thesis using r un by blast
  qed
qed

theorem live_entry_served_from_cache_witness:
  "getWeatherByCity plain_engine default_options no_body_upstream noon (lit ''London'')
     london_world =
     (Inr (formatWeatherData plain_engine (iso_string noon) london_payload @
            [(''fromCache'', JBool True)]), london_world) \<and>
   london_result =
     formatWeatherData plain_engine (iso_string noon) london_payload @
       [(''fromCache'', JBool False)] \<and>
   getWeatherByCity plain_engine default_options unknown_city_upstream noon (lit ''LONDON'')
     london_world =
     (Inr (formatWeatherData plain_engine (iso_string noon) london_payload @
            [(''fromCache'', JBool True)]), london_world) \<and>
   requests london_world = [lit ''london'']"
proof -
  let ?x = "formatWeatherData plain_engine (iso_string noon) london_payload"
  have ttl: "0 \<le> stdTTL default_options" by (simp add: default_options_def)
  have live: "live_entry (date_now noon) (cache london_world)
      (cacheKey plain_engine (lit ''London'')) =
      Some (wrap default_options (date_now noon) ?x)"
    using wrap_not_expired[OF ttl] by (simp add: london_world_eq key_London live_entry_def)
  have run: "getWeatherByCity plain_engine default_options london_upstream noon (lit ''london'')
      initial_world = (Inr london_result, london_world)"
    by (simp add: first_lookup_london london_result_eq london_world_eq default_options_def)
  have low: "toLowerCase plain_engine (lit ''LONDON'') = toLowerCase plain_engine (lit ''london'')"
    by (simp add: toLowerCase_lit lower_LONDON lower_london)
  have "getWeatherByCity plain_engine default_options no_body_upstream noon (lit ''London'')
      london_world = (Inr (?x @ [(''fromCache'', JBool True)]), london_world)"
    using live_entry_served_from_cache[where clk=noon and city="lit ''London''"
        and e="wrap default_options (date_now noon) ?x" and upstream=no_body_upstream,
        OF reachable_london_world]
      live by (simp add: wrap_entry_v)
  moreover have "\<exists>x b. london_result = x @ [(''fromCache'', JBool b)] \<and>
      getWeatherByCity plain_engine default_options unknown_city_upstream noon (lit ''LONDON'')
        london_world = (Inr (x @ [(''fromCache'', JBool True)]), london_world)"
    using live_entry_served_from_cache[where eng=plain_engine and opts=default_options
        and w=initial_world and clk=noon and city="lit ''london''" and upstream=london_upstream
        and r=london_result and w'=london_world and city'="lit ''LONDON''"
        and upstream'=unknown_city_upstream, OF reachable.start]
      ttl run low by blast
  then have "getWeatherByCity plain_engine default_options unknown_city_upstream noon
      (lit ''LONDON'') london_world = (Inr (?x @ [(''fromCache'', JBool True)]), london_world)"
    by (auto simp: london_result_eq)
  ultimately show ?thesis
    by (simp add: london_result_eq london_world_eq)
qed

text \<open>
  C1 as stated fails for a name with white space around it. After "london" has been
  cached, the name "london " has a live entry under its normalized key (the key of
  the trimmed, lower-cased name), yet its lookup is not served from the cache: a second
  request goes upstream and the result carries \<open>fromCache = false\<close>.
\<close>

theorem padded_name_not_served_counterexample:
  "live_entry (date_now noon) (cache london_world)
     (cacheKey plain_engine (trim (lit ''london ''))) =
     Some (wrap default_options (date_now noon)
            (formatWeatherData plain_engine (iso_string noon) london_payload)) \<and>
   getWeatherByCity plain_engine default_options london_upstream noon (lit ''london '')
     london_world =
     (Inr (formatWeatherData plain_engine (iso_string noon) london_payload @
            [(''fromCache'', JBool False)]),
      \<lparr>cache =
         [(lit ''weather_london'', wrap default_options (date_now noon)
            (formatWeatherData plain_engine (iso_string noon) london_payload)),
          (lit ''weather_london '', wrap default_options (date_now noon)
            (formatWeatherData plain_engine (iso_string noon) london_payload))],
       requests = [lit ''london'', lit ''london '']\<rparr>)"
proof -
  have ttl: "0 \<le> stdTTL default_options" by (simp add: default_options_def)
  have "live_entry (date_now noon) (cache london_world)
     (cacheKey plain_engine (trim (lit ''london ''))) =
     Some (wrap default_options (date_now noon)
            (formatWeatherData plain_engine (iso_string noon) london_payload))"
    using wrap_not_expired[OF ttl]
    by (simp add: trim_london_sp london_world_eq key_london live_entry_def)
  moreover have "live_entry (date_now noon) (cache london_world)
      (cacheKey plain_engine (lit ''london '')) = None"
    by (simp add: london_world_eq key_london_sp live_entry_def lit_inj)
  then have "getWeatherByCity plain_engine default_options london_upstream noon (lit ''london '')
     london_world =
     (Inr (formatWeatherData plain_engine (iso_string noon) london_payload @
            [(''fromCache'', JBool False)]),
      \<lparr>cache =
         [(lit ''weather_london'', wrap default_options (date_now noon)
            (formatWeatherData plain_engine (iso_string noon) london_payload)),
          (lit ''weather_london '', wrap default_options (date_now noon)
            (formatWeatherData plain_engine (iso_string noon) london_payload))],
       requests = [lit ''london'', lit ''london '']\<rparr>)"
    using lookup_stored[of noon london_world plain_engine "lit ''london ''" london_upstream
        london_payload default_options]
    by (simp add: london_upstream_def london_world_eq key_london_sp default_options_def lit_inj)
  ultimately show ?thesis by blast
qed

text \<open>
  C3, as the code has it. In every reachable state the keys of the cache are distinct
  and, for a configured maximum of \<open>N \<ge> 0\<close> entries, there are at most \<open>N\<close> of them.
  Nothing is ever evicted to make room: when the cache holds \<open>N\<close> entries, the key is
  not among them and the provider answers 200 with a body, the store is refused, the
  lookup fails with "Failed to fetch weather data: Cache max keys amount exceeded" and
  the cache stays as it was (the request has been sent).
\<close>

theorem cache_bounded_by_maxKeys:
  assumes "reachable eng opts w" and "0 \<le> maxKeys opts"
  shows "distinct (map fst (cache w)) \<and> int (length (cache w)) \<le> maxKeys opts \<and>
     (int (length (cache w)) = maxKeys opts \<and> map_of (cache w) (cacheKey eng city) = None \<and>
      upstream city = Resolved 200 (Some data) \<longrightarrow>
        getWeatherByCity eng opts upstream clk city w =
          (Inl (Error (lit ''Failed to fetch weather data: Cache max keys amount exceeded'')),
           w\<lparr>requests := requests w @ [city]\<rparr>))"
proof (intro conjI impI)
  have inv: "cache_inv opts (cache w)" using assms(1) by (rule reachable_inv)
  show "distinct (map fst (cache w))" using inv by (simp add: cache_inv_def)
  show "int (length (cache w)) \<le> maxKeys opts" using inv assms(2) by (simp add: cache_inv_def)
  assume a: "int (length (cache w)) = maxKeys opts \<and>
      map_of (cache w) (cacheKey eng city) = None \<and>
      upstream city = Resolved 200 (Some data)"
  then have absent: "AList.delete (cacheKey eng city) (cache w) = cache w"
    by (simp add: delete_absent)
  have "live_entry (date_now clk) (cache w) (cacheKey eng city) = None"
    using a by (simp add: live_entry_def)
  then show "getWeatherByCity eng opts upstream clk city w =
          (Inl (Error (lit ''Failed to fetch weather data: Cache max keys amount exceeded'')),
           w\<lparr>requests := requests w @ [city]\<rparr>)"
    using lookup_full[of clk w eng city upstream data opts] a assms(2)
    by (simp add: absent rethrow_def lit_append)
qed

theorem cache_bounded_by_maxKeys_witness:
  "distinct (map fst (cache full_world)) \<and> int (length (cache full_world)) \<le> maxKeys one_key \<and>
   getWeatherByCity plain_engine one_key london_upstream noon_01 (lit ''paris'') full_world =
     (Inl (Error (lit ''Failed to fetch weather data: Cache max keys amount exceeded'')),
      full_world\<lparr>requests := requests full_world @ [lit ''paris'']\<rparr>)"
proof -
  have m: "0 \<le> maxKeys one_key" by (simp add: one_key_def)
  have a: "int (length (cache full_world)) = maxKeys one_key \<and>
      map_of (cache full_world) (cacheKey plain_engine (lit ''paris'')) = None \<and>
      london_upstream (lit ''paris'') = Resolved 200 (Some london_payload)"
    by (simp add: full_world_eq one_key_def key_paris london_upstream_def lit_inj)
  show ?thesis
    using cache_bounded_by_maxKeys[where city="lit ''paris''" and upstream=london_upstream
        and data=london_payload and clk=noon_01, OF reachable_full_world m] a
    by blast
qed

text \<open>
  C3 as stated fails. With room for one key and "london" cached, a lookup of "paris"
  one second later, answered 200 by the provider, does not evict "london" and store
  "paris": it fails, and the cache still holds "london" alone.
\<close>

theorem no_eviction_counterexample:
  "int (length (cache full_world)) = maxKeys one_key \<and>
   london_upstream (lit ''paris'') = Resolved 200 (Some london_payload) \<and>
   fst (getWeatherByCity plain_engine one_key london_upstream noon_01 (lit ''paris'')
     full_world) =
     Inl (Error (lit ''Failed to fetch weather data: Cache max keys amount exceeded'')) \<and>
   map fst (cache (snd (getWeatherByCity plain_engine one_key london_upstream noon_01
     (lit ''paris'') full_world))) = [lit ''weather_london'']"
proof -
  have "live_entry (date_now noon_01) (cache full_world) (cacheKey plain_engine (lit ''paris''))
      = None"
    by (simp add: full_world_eq key_paris live_entry_def lit_inj)
  then show ?thesis
    using lookup_full[of noon_01 full_world plain_engine "lit ''paris''" london_upstream
        london_payload one_key]
    by (simp add: full_world_eq one_key_def key_paris london_upstream_def rethrow_def
        lit_append lit_inj)
qed

text \<open>
  C4. For a positive TTL of \<open>T\<close> seconds, an entry stored at instant \<open>t0\<close> (milliseconds,
  not negative) is served from the cache up to and including \<open>t0 + 1000 T\<close>. At any
  later instant a lookup of its key does not return it: a request is sent upstream,
  a result, if there is one, carries \<open>fromCache = false\<close>, and when the provider
  answers 200 with a body the lookup returns that body formatted. Nothing but the
  lookup itself is needed for this: the expired entry is dropped by the read.
\<close>

theorem entry_expires_after_ttl:
  assumes "reachable eng opts w" and "0 < stdTTL opts" and "0 \<le> t0"
    and "map_of (cache w) (cacheKey eng city) = Some (wrap opts t0 x)"
  shows "(date_now clk \<le> t0 + stdTTL opts * 1000 \<longrightarrow>
            getWeatherByCity eng opts upstream clk city w =
              (Inr (spread_with x ''fromCache'' (JBool True)), w)) \<and>
         (t0 + stdTTL opts * 1000 < date_now clk \<longrightarrow>
            requests (snd (getWeatherByCity eng opts upstream clk city w)) =
              requests w @ [city] \<and>
            (\<forall>r. fst (getWeatherByCity eng opts upstream clk city w) = Inr r \<longrightarrow>
                 obj_get r ''fromCache'' = JBool False) \<and>
            (upstream city = Resolved 200 (Some data) \<longrightarrow>
               fst (getWeatherByCity eng opts upstream clk city w) =
                 Inr (formatWeatherData eng (iso_string clk) data @
                        [(''fromCache'', JBool False)])))"
proof (intro conjI impI allI)
  let ?e = "wrap opts t0 x"
  have t: "entry_t ?e = t0 + stdTTL opts * 1000" and nz: "entry_t ?e \<noteq> 0"
    using assms(2,3) by (simp_all add: wrap_def add_nonneg_eq_0_iff)
  {
    assume "date_now clk \<le> t0 + stdTTL opts * 1000"
    then have "live_entry (date_now clk) (cache w) (cacheKey eng city) = Some ?e"
      using assms(4) t by (simp add: live_entry_def expired_def)
    then show "getWeatherByCity eng opts upstream clk city w =
              (Inr (spread_with x ''fromCache'' (JBool True)), w)"
      using lookup_hit[of clk w eng city ?e opts upstream] by (simp add: wrap_entry_v)
  }
  assume late: "t0 + stdTTL opts * 1000 < date_now clk"
  then have miss: "live_entry (date_now clk) (cache w) (cacheKey eng city) = None"
    using assms(4) t nz by (simp add: live_entry_def expired_def)
  have inv: "cache_inv opts (cache w)" using assms(1) by (rule reachable_inv)
  have room: "\<not> (maxKeys opts > -1 \<and>
      int (length (AList.delete (cacheKey eng city) (cache w))) \<ge> maxKeys opts)"
    using inv length_delete_less[OF assms(4)] by (auto simp: cache_inv_def)
  have ways: "(\<exists>e. getWeatherByCity eng opts upstream clk city w =
        (Inl e, \<lparr>cache = AList.delete (cacheKey eng city) (cache w),
                  requests = requests w @ [city]\<rparr>)) \<or>
     (\<exists>d. upstream city = Resolved 200 (Some d) \<and>
        getWeatherByCity eng opts upstream clk city w =
        (Inr (formatWeatherData eng (iso_string clk) d @ [(''fromCache'', JBool False)]),
         \<lparr>cache = AList.update (cacheKey eng city)
                    (wrap opts (date_now clk) (formatWeatherData eng (iso_string clk) d))
                    (AList.delete (cacheKey eng city) (cache w)),
          requests = requests w @ [city]\<rparr>))"
  proof (cases rule: lookup_cases[where clk=clk and w=w and city=city
        and upstream=upstream and opts=opts and eng=eng])
    case (hit e)
    then show ?thesis using miss by simp
  next
    case (rejected msg provider)
    then show ?thesis by (simp add: lookup_rejected)
  next
    case (invalid status body)
    then show ?thesis by (simp add: lookup_invalid)
  next
    case (full d)
    then show ?thesis using room by simp
  next
    case (stored d)
    then show ?thesis by (simp add: lookup_stored)
  qed
  from ways show "requests (snd (getWeatherByCity eng opts upstream clk city w)) =
      requests w @ [city]"
    by auto
  {
    fix r assume "fst (getWeatherByCity eng opts upstream clk city w) = Inr r"
    with ways obtain d where "r = spread_with (formatWeatherData eng (iso_string clk) d)
        ''fromCache'' (JBool False)"
      by (auto simp: spread_untagged[OF format_untagged])
    then show "obj_get r ''fromCache'' = JBool False"
      by (simp add: obj_get_spread_same)
  }
  assume "upstream city = Resolved 200 (Some data)"
  then show "fst (getWeatherByCity eng opts upstream clk city w) =
      Inr (formatWeatherData eng (iso_string clk) data @ [(''fromCache'', JBool False)])"
    using lookup_stored[OF miss _ room, of upstream data] by simp
qed

theorem entry_expires_after_ttl_witness:
  "getWeatherByCity plain_engine default_options no_body_upstream noon_01 (lit ''london'')
     london_world =
     (Inr (spread_with (formatWeatherData plain_engine (iso_string noon) london_payload)
            ''fromCache'' (JBool True)), london_world) \<and>
   requests (snd (getWeatherByCity plain_engine default_options london_upstream after_ttl
     (lit ''london'') london_world)) = [lit ''london'', lit ''london''] \<and>
   fst (getWeatherByCity plain_engine default_options london_upstream after_ttl
     (lit ''london'') london_world) =
     Inr (formatWeatherData plain_engine (iso_string after_ttl) london_payload @
            [(''fromCache'', JBool False)])"
proof -
  let ?x = "formatWeatherData plain_engine (iso_string noon) london_payload"
  have ttl: "0 < stdTTL default_options" by (simp add: default_options_def)
  have t0: "0 \<le> date_now noon" by (simp add: noon_def)
  have ent: "map_of (cache london_world) (cacheKey plain_engine (lit ''london'')) =
      Some (wrap default_options (date_now noon) ?x)"
    by (simp add: london_world_eq key_london)
  have early: "date_now noon_01 \<le> date_now noon + stdTTL default_options * 1000"
    by (simp add: noon_def noon_01_def default_options_def)
  have late: "date_now noon + stdTTL default_options * 1000 < date_now after_ttl"
    by (simp add: noon_def after_ttl_def default_options_def)
  have up: "london_upstream (lit ''london'') = Resolved 200 (Some london_payload)"
    by (simp add: london_upstream_def)
  have rq: "requests london_world = [lit ''london'']" by (simp add: london_world_eq)
  show ?thesis
    using entry_expires_after_ttl[OF reachable_london_world ttl t0 ent,
        of noon_01 no_body_upstream london_payload]
      entry_expires_after_ttl[OF reachable_london_world ttl t0 ent,
        of after_ttl london_upstream london_payload]
      early late up rq
    by simp
qed

text \<open>
  C6, as the code has it. When no live entry is cached for the name and the request
  is thrown by the HTTP client (a network failure or a status outside 2xx), or the
  response has a status other than 200 or an empty body, the lookup fails with
  "Failed to fetch weather data: " followed by the provider's message when the thrown
  error carries a non-empty one, by the thrown error's own message otherwise, and by
  "Invalid response from weather API" for a response that was not thrown. Nothing is
  stored: the cache afterwards has no entry under the name's key (an expired one is
  dropped by the read) and every other key is as before.
\<close>

theorem upstream_failure_not_cached:
  assumes "live_entry (date_now clk) (cache w) (cacheKey eng city) = None"
    and "upstream city = Rejected msg provider \<or>
         (upstream city = Resolved status body \<and> (status \<noteq> 200 \<or> body = None))"
  shows "fst (getWeatherByCity eng opts upstream clk city w) =
           Inl (Error (lit ''Failed to fetch weather data: '' @
             (case upstream city of
                Rejected m p \<Rightarrow> (case p of Some txt \<Rightarrow> if txt \<noteq> [] then txt else m | None \<Rightarrow> m)
              | Resolved s b \<Rightarrow> lit ''Invalid response from weather API''))) \<and>
         map_of (cache (snd (getWeatherByCity eng opts upstream clk city w))) =
           (map_of (cache w))(cacheKey eng city := None) \<and>
         requests (snd (getWeatherByCity eng opts upstream clk city w)) = requests w @ [city]"
  using assms(2)
proof
  assume "upstream city = Rejected msg provider"
  then show ?thesis
    using lookup_rejected[OF assms(1), of upstream msg provider opts]
    by (simp add: rethrow_def AList.delete_conv')
next
  assume "upstream city = Resolved status body \<and> (status \<noteq> 200 \<or> body = None)"
  then show ?thesis
    using lookup_invalid[OF assms(1), of upstream status body opts]
    by (simp add: rethrow_def AList.delete_conv')
qed

text \<open>
  The example of the specification: HTTP 400 with the body
  \<open>{error: {message: "No matching location found."}}\<close> makes the lookup fail with that
  message, and the cache stays empty.
\<close>

theorem upstream_failure_not_cached_witness:
  "fst (getWeatherByCity plain_engine default_options unknown_city_upstream noon
     (lit ''Atlantis'') initial_world) =
     Inl (Error (lit ''Failed to fetch weather data: No matching location found.'')) \<and>
   map_of (cache (snd (getWeatherByCity plain_engine default_options unknown_city_upstream noon
      (lit ''Atlantis'') initial_world))) (lit ''weather_atlantis'') = None \<and>
   requests (snd (getWeatherByCity plain_engine default_options unknown_city_upstream noon
      (lit ''Atlantis'') initial_world)) = [lit ''Atlantis'']"
proof -
  have miss: "live_entry (date_now noon) (cache initial_world)
      (cacheKey plain_engine (lit ''Atlantis'')) = None"
    by (simp add: initial_world_def live_entry_empty)
  have up: "unknown_city_upstream (lit ''Atlantis'') =
      Rejected (lit ''Request failed with status code 400'')
        (Some (lit ''No matching location found.'')) \<or>
      (unknown_city_upstream (lit ''Atlantis'') = Resolved 0 None \<and>
       ((0::nat) \<noteq> 200 \<or> None = None))"
    by (simp add: unknown_city_upstream_def)
  show ?thesis
    using upstream_failure_not_cached[where clk=noon and w=initial_world
        and eng=plain_engine and city="lit ''Atlantis''"
        and upstream=unknown_city_upstream
        and msg="lit ''Request failed with status code 400''"
        and provider="Some (lit ''No matching location found.'')" and status=0 and body=None
        and opts=default_options] miss up
    by (simp add: unknown_city_upstream_def key_atlantis initial_world_def lit_append lit_empty)
qed

text \<open>
  C6 as stated fails for a malformed response: a 200 answer whose body has neither
  \<open>location\<close> nor \<open>current\<close> is not refused. With an empty cache the lookup succeeds
  and the object built from it is stored under the key.
\<close>

theorem malformed_body_accepted_counterexample:
  "bare_upstream (lit ''nowhere'') = Resolved 200 (Some \<lparr>location = None, current = None\<rparr>) \<and>
   \<not> isl (fst (getWeatherByCity plain_engine default_options bare_upstream noon
      (lit ''nowhere'') initial_world)) \<and>
   map fst (cache (snd (getWeatherByCity plain_engine default_options bare_upstream noon
      (lit ''nowhere'') initial_world))) = [lit ''weather_nowhere'']"
  using lookup_stored[of noon initial_world plain_engine "lit ''nowhere''" bare_upstream
      "\<lparr>location = None, current = None\<rparr>" default_options]
  by (simp add: bare_upstream_def initial_world_def live_entry_empty default_options_def
      key_nowhere)

text \<open>
  C8. The provider's answer for an unknown city is HTTP 400 with the message
  "No matching location found."; the service turns it into the error
  "Failed to fetch weather data: No matching location found.". The handler's \<open>catch\<close>
  block then reads \<open>city\<close>, which is not in scope there, and throws a
  \<open>ReferenceError\<close>: no 404 response is sent. Were \<open>city\<close> in scope, the test
  \<open>message.includes('not found')\<close> would still fail on this message and the answer
  would be 500.
\<close>

theorem unknown_city_not_answered_404:
  "getWeatherByCity plain_engine default_options unknown_city_upstream noon (lit ''Atlantis'')
     initial_world =
     (Inl (Error (lit ''Failed to fetch weather data: No matching location found.'')),
      \<lparr>cache = [], requests = [lit ''Atlantis'']\<rparr>) \<and>
   fst (controller plain_engine False default_options unknown_city_upstream noon
      (QString (lit ''Atlantis'')) initial_world) =
     Rejects (ReferenceError (lit ''city is not defined'')) \<and>
   catch_block False (Some (lit ''Atlantis''))
      (Error (lit ''Failed to fetch weather data: No matching location found.'')) =
     Responded 500
       [(''status'', JStr (lit ''error'')),
        (''message'', JStr (lit ''An error occurred while fetching weather data''))]"
proof -
  have run: "getWeatherByCity plain_engine default_options unknown_city_upstream noon
     (lit ''Atlantis'') initial_world =
     (Inl (Error (lit ''Failed to fetch weather data: No matching location found.'')),
      \<lparr>cache = [], requests = [lit ''Atlantis'']\<rparr>)"
    using lookup_rejected[of noon initial_world plain_engine "lit ''Atlantis''"
        unknown_city_upstream "lit ''Request failed with status code 400''"
        "Some (lit ''No matching location found.'')" default_options]
    by (simp add: initial_world_def live_entry_empty unknown_city_upstream_def rethrow_def
        lit_append lit_empty)
  have valid: "\<not> invalid_city (QString (lit ''Atlantis''))"
    by (simp add: invalid_city_def trim_def lit_def is_space_def)
  have "fst (controller plain_engine False default_options unknown_city_upstream noon
      (QString (lit ''Atlantis'')) initial_world) =
      Rejects (ReferenceError (lit ''city is not defined''))"
    using valid by (simp add: controller_def run catch_block_def)
  moreover have "\<not> str_includes
      (lit ''Failed to fetch weather data: No matching location found.'') (lit ''not found'')"
    by code_simp
  ultimately show ?thesis
    using run by (simp add: catch_block_def)
qed

text \<open>
  C10. In every reachable state no object stored in the cache has a \<open>fromCache\<close>
  property. A lookup that returns a result returns the object stored under the key
  with one property added at its end, \<open>fromCache\<close>; when that flag is true (a hit) the
  state is exactly as before the lookup, so the stored entry is untouched and the next
  hit derives the flag anew; when it is false the stored object is the freshly
  formatted one, without the flag.
\<close>

theorem stored_object_never_tagged:
  assumes "reachable eng opts w"
  shows "(\<forall>e \<in> snd ` set (cache w). ''fromCache'' \<notin> fst ` set (entry_v e)) \<and>
         (getWeatherByCity eng opts upstream clk city w = (Inr r, w') \<longrightarrow>
            (\<exists>e b. map_of (cache w') (cacheKey eng city) = Some e \<and>
                   ''fromCache'' \<notin> fst ` set (entry_v e) \<and>
                   r = entry_v e @ [(''fromCache'', JBool b)] \<and>
                   (b \<longrightarrow> w' = w)))"
proof (intro conjI impI)
  have inv: "cache_inv opts (cache w)" using assms by (rule reachable_inv)
  then show clean: "\<forall>e \<in> snd ` set (cache w). ''fromCache'' \<notin> fst ` set (entry_v e)"
    by (simp add: cache_inv_def)
  assume run: "getWeatherByCity eng opts upstream clk city w = (Inr r, w')"
  show "\<exists>e b. map_of (cache w') (cacheKey eng city) = Some e \<and>
                   ''fromCache'' \<notin> fst ` set (entry_v e) \<and>
                   r = entry_v e @ [(''fromCache'', JBool b)] \<and>
                   (b \<longrightarrow> w' = w)"
  proof (cases rule: lookup_cases[where clk=clk and w=w and city=city
        and upstream=upstream and opts=opts and eng=eng])
    case (hit e)
    then have m: "map_of (cache w) (cacheKey eng city) = Some e" by (rule live_entry_map_of)
    then have "e \<in> snd ` set (cache w)"
      by (metis map_of_SomeD image_eqI snd_conv)
    then have un: "''fromCache'' \<notin> fst ` set (entry_v e)" using clean by blast
    have "r = entry_v e @ [(''fromCache'', JBool True)]" and "w' = w"
      using run hit by (simp_all add: lookup_hit spread_untagged[OF un])
    then show ?thesis using m un by blast
  next
    case (rejected msg provider)
    then show ?thesis using run by (simp add: lookup_rejected)
  next
    case (invalid status body)
    then show ?thesis using run by (simp add: lookup_invalid)
  next
    case (full data)
    then show ?thesis using run by (simp add: lookup_full)
  next
    case (stored data)
    let ?x = "formatWeatherData eng (iso_string clk) data"
    from stored run have "r = ?x @ [(''fromCache'', JBool False)]"
      and "map_of (cache w') (cacheKey eng city) = Some (wrap opts (date_now clk) ?x)"
      by (auto simp: lookup_stored AList.update_conv')
    then show ?thesis
      using format_untagged[of eng "iso_string clk" data] wrap_entry_v[of opts "date_now clk" ?x]
      by (metis (full_types))
  qed
qed

theorem stored_object_never_tagged_witness:
  "map (\<lambda>(k, e). ''fromCache'' \<in> fst ` set (entry_v e)) (cache london_world) = [False] \<and>
   getWeatherByCity plain_engine default_options no_body_upstream noon_01 (lit ''LONDON'')
     london_world =
     (Inr (formatWeatherData plain_engine (iso_string noon) london_payload @
            [(''fromCache'', JBool True)]), london_world) \<and>
   map_of (cache london_world) (cacheKey plain_engine (lit ''LONDON'')) =
     Some (wrap default_options (date_now noon)
            (formatWeatherData plain_engine (iso_string noon) london_payload))"
proof -
  let ?x = "formatWeatherData plain_engine (iso_string noon) london_payload"
  have "\<forall>e \<in> snd ` set (cache london_world). ''fromCache'' \<notin> fst ` set (entry_v e)"
    using stored_object_never_tagged[OF reachable_london_world] by blast
  then have "map (\<lambda>(k, e). ''fromCache'' \<in> fst ` set (entry_v e)) (cache london_world) =
      [False]"
    by (simp add: london_world_eq)
  moreover have "live_entry (date_now noon_01) (cache london_world)
      (cacheKey plain_engine (lit ''LONDON'')) =
      Some (wrap default_options (date_now noon) ?x)"
    by (simp add: london_world_eq key_LONDON live_entry_def expired_def wrap_def
        default_options_def noon_def noon_01_def)
  then have "getWeatherByCity plain_engine default_options no_body_upstream noon_01
      (lit ''LONDON'') london_world =
     (Inr (?x @ [(''fromCache'', JBool True)]), london_world)"
    using lookup_hit[of noon_01 london_world plain_engine "lit ''LONDON''" _ default_options
        no_body_upstream]
    by (simp add: wrap_entry_v spread_untagged[OF format_untagged])
  moreover have "map_of (cache london_world) (cacheKey plain_engine (lit ''LONDON'')) =
     Some (wrap default_options (date_now noon) ?x)"
    by (simp add: london_world_eq key_LONDON)
  ultimately show ?thesis by blast
qed

end
